theory Spec2Isabelle
  imports
    Complex_Main
    "HOL-Library.Sublist"
    "HOL-Library.Char_ord"
    "HOL-Library.List_Lexorder"
    "HOL-Library.Multiset"
begin

section \<open>Python strings\<close>

text \<open>
  A Python \<open>str\<close> is modelled as a \<^typ>\<open>string\<close>: the list of its code points, each
  below 256. On that range \<open>str.isspace\<close> holds of the twelve characters below and
  \<open>str.lower\<close> moves \<open>A..Z\<close> and the upper-case letters of U+00C0..U+00DE (all but the
  multiplication sign U+00D7) up by 32.
\<close>

definition isspace :: "char \<Rightarrow> bool" where
  "isspace c \<longleftrightarrow>
     c \<in> {CHR 0x09, CHR 0x0A, CHR 0x0B, CHR 0x0C, CHR 0x0D, CHR 0x1C, CHR 0x1D, CHR 0x1E,
          CHR 0x1F, CHR 0x20, CHR 0x85, CHR 0xA0}"

definition lower_char :: "char \<Rightarrow> char" where
  "lower_char c =
     (let n = (of_char c :: nat)
      in if (65 \<le> n \<and> n \<le> 90) \<or> (192 \<le> n \<and> n \<le> 222 \<and> n \<noteq> 215)
         then char_of (n + 32) else c)"

text \<open>\<open>s.lower()\<close>\<close>

definition py_lower :: "string \<Rightarrow> string" where
  "py_lower s = map lower_char s"

text \<open>\<open>s.strip()\<close>: leading and trailing whitespace removed.\<close>

definition py_strip :: "string \<Rightarrow> string" where
  "py_strip s = rev (dropWhile isspace (rev (dropWhile isspace s)))"

text \<open>
  \<open>s.split()\<close>: the maximal runs of non-whitespace characters, in order. The first
  argument of \<open>split_from\<close> is the word read so far.
\<close>

fun split_from :: "string \<Rightarrow> string \<Rightarrow> string list" where
  "split_from w [] = (if w = [] then [] else [w])"
| "split_from w (c # cs) =
     (if isspace c then (if w = [] then split_from [] cs else w # split_from [] cs)
      else split_from (w @ [c]) cs)"

definition py_split :: "string \<Rightarrow> string list" where
  "py_split s = split_from [] s"

text \<open>\<open>sub in s\<close>: \<open>sub\<close> occurs in \<open>s\<close> as a contiguous run.\<close>

definition py_in :: "string \<Rightarrow> string \<Rightarrow> bool" where
  "py_in sub s \<longleftrightarrow> sublist sub s"

text \<open>
  \<open>s.replace(old, new)\<close>: every occurrence of \<open>old\<close>, found from the left and without
  overlap, becomes \<open>new\<close>; an empty \<open>old\<close> matches before every character and at the end.
\<close>

function py_replace :: "string \<Rightarrow> string \<Rightarrow> string \<Rightarrow> string" where
  "py_replace old new [] = (if old = [] then new else [])"
| "py_replace old new (c # cs) =
     (if old = [] then new @ c # py_replace old new cs
      else if prefix old (c # cs) then new @ py_replace old new (drop (length old) (c # cs))
      else c # py_replace old new cs)"
  by pat_completeness auto
termination
  by (relation "measure (\<lambda>(old, new, s). length s)") auto

text \<open>\<open>sep.join(xs)\<close>\<close>

fun py_join :: "string \<Rightarrow> string list \<Rightarrow> string" where
  "py_join sep [] = []"
| "py_join sep [x] = x"
| "py_join sep (x # y # ys) = x @ sep @ py_join sep (y # ys)"

section \<open>Exceptions\<close>

text \<open>
  The exceptions the modelled code can raise. \<open>KeyError\<close> carries the missing key,
  \<open>AttributeError\<close> its message; \<open>MultipleValues\<close> is the \<open>TypeError\<close> of a keyword
  given twice to one call and \<open>NotIterable\<close> the \<open>TypeError\<close> of a \<open>for\<close> over a value
  that has no iterator, with the name of the value's type. \<open>NotModelled\<close> marks
  format-string syntax that no template of the catalog uses and that this development
  does not interpret.
\<close>

datatype exn =
    KeyError string
  | MultipleValues string
  | NotIterable string
  | ValueError
  | IndexError
  | AttributeError string
  | NotModelled

section \<open>The pattern catalog\<close>

record pattern =
  name :: string
  description :: string
  template :: "string option"

definition xml_structure_template :: string where
  \<open>xml_structure_template =
     ''<instructions>\<newline>'' @
     ''{original_prompt}\<newline>'' @
     ''</instructions>\<newline>'' @
     ''\<newline>'' @
     ''<context>\<newline>'' @
     ''Provide any relevant background information that helps with understanding the task.\<newline>'' @
     ''</context>\<newline>'' @
     ''\<newline>'' @
     ''<examples>\<newline>'' @
     ''<example>\<newline>'' @
     ''<input>Sample input here</input>\<newline>'' @
     ''<output>Expected output format</output>\<newline>'' @
     ''</example>\<newline>'' @
     ''</examples>\<newline>'' @
     ''\<newline>'' @
     ''<formatting>\<newline>'' @
     ''Please structure your response clearly and follow the examples provided.\<newline>'' @
     ''</formatting>''\<close>

definition chain_of_thought_template :: string where
  \<open>chain_of_thought_template =
     ''<task>\<newline>'' @
     ''{original_prompt}\<newline>'' @
     ''</task>\<newline>'' @
     ''\<newline>'' @
     ''<instructions>\<newline>'' @
     ''Before providing your final answer, please think through this step-by-step inside <thinking> tags:\<newline>'' @
     ''1. Break down the problem\<newline>'' @
     ''2. Consider different approaches\<newline>'' @
     ''3. Work through the solution\<newline>'' @
     ''4. Verify your reasoning\<newline>'' @
     ''</instructions>\<newline>'' @
     ''\<newline>'' @
     ''<thinking>\<newline>'' @
     ''[Your step-by-step reasoning will go here]\<newline>'' @
     ''</thinking>\<newline>'' @
     ''\<newline>'' @
     ''Please provide your response after showing your thinking process.''\<close>

definition role_prompting_template :: string where
  \<open>role_prompting_template =
     ''<role>\<newline>'' @
     ''You are a world-class {persona} with {years_experience} years of experience in {domain}. You are known for your {key_strengths} and have a reputation for {reputation_traits}.\<newline>'' @
     ''</role>\<newline>'' @
     ''\<newline>'' @
     ''<task>\<newline>'' @
     ''{original_prompt}\<newline>'' @
     ''</task>\<newline>'' @
     ''\<newline>'' @
     ''<approach>\<newline>'' @
     ''As an expert {persona}, please:\<newline>'' @
     ''1. Apply your specialized knowledge and experience\<newline>'' @
     ''2. Consider industry best practices and standards\<newline>'' @
     ''3. Provide insights that only an expert would know\<newline>'' @
     ''4. Structure your response professionally\<newline>'' @
     ''</approach>''\<close>

definition multishot_examples_template :: string where
  \<open>multishot_examples_template =
     ''<task>\<newline>'' @
     ''{original_prompt}\<newline>'' @
     ''</task>\<newline>'' @
     ''\<newline>'' @
     ''<examples>\<newline>'' @
     ''<example_1>\<newline>'' @
     ''<input>{example_input_1}</input>\<newline>'' @
     ''<output>{example_output_1}</output>\<newline>'' @
     ''</example_1>\<newline>'' @
     ''\<newline>'' @
     ''<example_2>\<newline>'' @
     ''<input>{example_input_2}</input>\<newline>'' @
     ''<output>{example_output_2}</output>\<newline>'' @
     ''</example_2>\<newline>'' @
     ''</examples>\<newline>'' @
     ''\<newline>'' @
     ''<instructions>\<newline>'' @
     ''Following the pattern shown in the examples above, please process the actual task.\<newline>'' @
     ''</instructions>''\<close>

text \<open>The dictionary keeps its keys in the order they were written.\<close>

definition ENHANCEMENT_PATTERNS :: "(string \<times> pattern) list" where
  \<open>ENHANCEMENT_PATTERNS =
     [(''ai_rewrite'',
         \<lparr>name = ''AI-Driven Rewrite'',
          description = ''Uses an AI to critique and rewrite the prompt from scratch for maximum effectiveness.'',
          template = None\<rparr>),
      (''xml_structure'',
         \<lparr>name = ''XML Structure Enhancement'',
          description = ''Uses XML tags for clear prompt organization (Anthropic's signature technique)'',
          template = Some xml_structure_template\<rparr>),
      (''chain_of_thought'',
         \<lparr>name = ''Chain of Thought with XML'',
          description = ''Encourages step-by-step reasoning with structured thinking'',
          template = Some chain_of_thought_template\<rparr>),
      (''role_prompting'',
         \<lparr>name = ''Role-Based Prompting'',
          description = ''Assigns specific expert roles for domain expertise'',
          template = Some role_prompting_template\<rparr>),
      (''multishot_examples'',
         \<lparr>name = ''Multishot Example Enhancement'',
          description = ''Provides multiple high-quality examples with consistent formatting'',
          template = Some multishot_examples_template\<rparr>)]\<close>

section \<open>\<open>str.format\<close> with keyword arguments only\<close>

text \<open>
  \<open>tmpl.format(**kw)\<close> reads the template from the left. Outside a field, \<open>{{\<close> and
  \<open>}}\<close> stand for one brace, a lone \<open>}\<close> or a \<open>{\<close> that ends the string is a
  \<open>ValueError\<close>, and any other \<open>{\<close> opens a field; the field's name runs to the next
  \<open>}\<close>, and a name never closed is a \<open>ValueError\<close>. A name that is empty or made of
  digits asks for a positional argument, of which there are none: \<open>IndexError\<close>. Any
  other name is looked up among the keywords: \<open>KeyError\<close> when absent, otherwise its
  value (a \<open>str\<close>) is written out as it is. The second argument is the field name read
  so far, \<open>None\<close> outside a field. Conversions, format specifications, attribute and
  index access and nested fields (\<open>!\<close>, \<open>:\<close>, \<open>.\<close>, \<open>[\<close> or \<open>{\<close> inside a field)
  are \<open>NotModelled\<close>.
\<close>

definition emit :: "string \<Rightarrow> exn + string \<Rightarrow> exn + string" where
  "emit v r = (case r of Inl e \<Rightarrow> Inl e | Inr s \<Rightarrow> Inr (v @ s))"

definition is_digit :: "char \<Rightarrow> bool" where
  "is_digit c \<longleftrightarrow> c \<in> set ''0123456789''"

definition get_field :: "(string \<rightharpoonup> string) \<Rightarrow> string \<Rightarrow> exn + string" where
  "get_field kw f =
     (if list_all is_digit f then Inl IndexError
      else case kw f of None \<Rightarrow> Inl (KeyError f) | Some v \<Rightarrow> Inr v)"

fun py_format :: "(string \<rightharpoonup> string) \<Rightarrow> string option \<Rightarrow> string \<Rightarrow> exn + string" where
  "py_format kw None [] = Inr []"
| "py_format kw (Some f) [] = Inl ValueError"
| "py_format kw None (c # cs) =
     (if c = CHR ''{'' then
        (case cs of
           [] \<Rightarrow> Inl ValueError
         | d # ds \<Rightarrow> if d = CHR ''{'' then emit [c] (py_format kw None ds)
                    else py_format kw (Some []) cs)
      else if c = CHR ''}'' then
        (case cs of
           [] \<Rightarrow> Inl ValueError
         | d # ds \<Rightarrow> if d = CHR ''}'' then emit [c] (py_format kw None ds)
                    else Inl ValueError)
      else emit [c] (py_format kw None cs))"
| "py_format kw (Some f) (c # cs) =
     (if c = CHR ''}'' then
        (case get_field kw f of
           Inl e \<Rightarrow> Inl e
         | Inr v \<Rightarrow> emit v (py_format kw None cs))
      else if c \<in> set ''!:.[{'' then Inl NotModelled
      else py_format kw (Some (f @ [c])) cs)"

section \<open>JSON documents and the serving endpoint\<close>

text \<open>
  A decoded JSON document. An object is the \<open>dict\<close> it decodes to, as the list of its
  items, read with \<^const>\<open>map_of\<close>.
\<close>

datatype json =
    JNull
  | JBool bool
  | JInt int
  | JFloat rat
  | JString string
  | JArray "json list"
  | JObject "(string \<times> json) list"

fun type_name :: "json \<Rightarrow> string" where
  "type_name JNull = ''NoneType''"
| "type_name (JBool b) = ''bool''"
| "type_name (JInt i) = ''int''"
| "type_name (JFloat q) = ''float''"
| "type_name (JString s) = ''str''"
| "type_name (JArray xs) = ''list''"
| "type_name (JObject kvs) = ''dict''"

text \<open>The message of the \<open>AttributeError\<close> raised by \<open>v.attr\<close>.\<close>

definition no_attribute :: "json \<Rightarrow> string \<Rightarrow> string" where
  "no_attribute v attr =
     [CHR 0x27] @ type_name v @ [CHR 0x27] @ '' object has no attribute '' @
     [CHR 0x27] @ attr @ [CHR 0x27]"

text \<open>
  What one HTTP exchange comes to once \<open>requests.get\<close> or \<open>requests.post\<close>,
  \<open>raise_for_status()\<close> and \<open>response.json()\<close> have run: \<open>Failed msg\<close> when one of them
  raised a \<open>requests.exceptions.RequestException\<close> \<open>e\<close> with \<open>str(e) = msg\<close> (no
  connection, a timeout, an error status, a body that is not JSON, whose decoding
  error \<open>requests\<close> makes a \<open>RequestException\<close> from its version 2.27 on), \<open>Body data\<close>
  when all three returned with the decoded document \<open>data\<close>.
\<close>

datatype http_outcome = Failed string | Body json

record generate_request =
  req_model :: string
  req_prompt :: string
  req_stream :: bool

text \<open>
  The endpoint answers a \<open>POST /api/generate\<close> knowing the requests it was sent
  before.
\<close>

type_synonym server = "generate_request list \<Rightarrow> generate_request \<Rightarrow> http_outcome"

section \<open>The state the code works on\<close>

record enhancement_record =
  timestamp :: string
  original :: string
  enhanced :: string
  type' :: string
  parameters :: "(string \<times> string) list"

text \<open>
  \<open>enhancement_history\<close> is the list of the \<open>PromptEnhancer\<close> object, \<open>critique\<close> is
  \<open>st.session_state.critique\<close> (\<open>None\<close> while it was never assigned) and \<open>sent\<close> lists
  the generate requests posted so far, oldest first.
\<close>

record world =
  enhancement_history :: "enhancement_record list"
  critique :: "string option"
  sent :: "generate_request list"

section \<open>The model client\<close>

text \<open>The body of the \<open>try\<close> in \<open>call_ollama\<close>; \<open>Inl msg\<close> is an exception whose text is \<open>msg\<close>.\<close>

definition call_ollama_try :: "http_outcome \<Rightarrow> string + string" where
  "call_ollama_try outcome =
     (case outcome of
        Failed msg \<Rightarrow> Inl msg
      | Body data \<Rightarrow>
          (case data of
             JObject kvs \<Rightarrow>
               (case (case map_of kvs ''response'' of
                        None \<Rightarrow> JString ''[No response from Ollama]''
                      | Some v \<Rightarrow> v) of
                  JString text \<Rightarrow> Inr (py_strip text)
                | v \<Rightarrow> Inl (no_attribute v ''strip''))
           | v \<Rightarrow> Inl (no_attribute v ''get'')))"

definition call_ollama :: "server \<Rightarrow> world \<Rightarrow> string \<Rightarrow> string \<Rightarrow> string \<times> world" where
  "call_ollama srv w prompt model =
     (let req = \<lparr>req_model = model, req_prompt = prompt, req_stream = False\<rparr>;
          w' = w\<lparr>sent := sent w @ [req]\<rparr>
      in (case call_ollama_try (srv (sent w) req) of
            Inr text \<Rightarrow> text
          | Inl e \<Rightarrow> ''[Ollama Error: '' @ e @ '']'',
          w'))"

text \<open>
  \<open>sorted\<close> of a list of \<open>str\<close> is the list in ascending order of code points, position
  by position. On any other list its outcome hangs on which pairs the sorting
  procedure compares; that part is the parameter \<open>other\<close>, left open.
\<close>

fun strings_of :: "json list \<Rightarrow> string list option" where
  "strings_of [] = Some []"
| "strings_of (JString s # vs) = map_option ((#) s) (strings_of vs)"
| "strings_of (v # vs) = None"

definition py_sorted :: "(json list \<Rightarrow> exn + json list) \<Rightarrow> json list \<Rightarrow> exn + json list" where
  "py_sorted other vs =
     (case strings_of vs of Some ss \<Rightarrow> Inr (map JString (sort ss)) | None \<Rightarrow> other vs)"

text \<open>\<open>for x in v\<close>: the items a loop over \<open>v\<close> visits.\<close>

fun py_iter :: "json \<Rightarrow> exn + json list" where
  "py_iter (JArray xs) = Inr xs"
| "py_iter (JString s) = Inr (map (\<lambda>c. JString [c]) s)"
| "py_iter (JObject kvs) = Inr (map (\<lambda>kv. JString (fst kv)) kvs)"
| "py_iter v = Inl (NotIterable (type_name v))"

text \<open>\<open>v.get(key, default)\<close>\<close>

fun py_get :: "json \<Rightarrow> string \<Rightarrow> json \<Rightarrow> exn + json" where
  "py_get (JObject kvs) key dflt =
     Inr (case map_of kvs key of None \<Rightarrow> dflt | Some v \<Rightarrow> v)"
| "py_get v key dflt = Inl (AttributeError (no_attribute v ''get''))"

text \<open>A list comprehension: the first exception ends it.\<close>

fun comprehension :: "('a \<Rightarrow> exn + 'b) \<Rightarrow> 'a list \<Rightarrow> exn + 'b list" where
  "comprehension f [] = Inr []"
| "comprehension f (x # xs) =
     (case f x of
        Inl e \<Rightarrow> Inl e
      | Inr y \<Rightarrow> (case comprehension f xs of Inl e \<Rightarrow> Inl e | Inr ys \<Rightarrow> Inr (y # ys)))"

text \<open>
  \<open>get_ollama_models\<close>, given what the \<open>GET /api/tags\<close> exchange came to. Only a
  \<open>RequestException\<close> is caught; an exception raised while the document is read leaves
  the function.
\<close>

definition get_ollama_models ::
  "(json list \<Rightarrow> exn + json list) \<Rightarrow> http_outcome \<Rightarrow> exn + json list" where
  "get_ollama_models other outcome =
     (case outcome of
        Failed msg \<Rightarrow> Inr []
      | Body data \<Rightarrow>
          (case py_get data ''models'' (JArray []) of
             Inl e \<Rightarrow> Inl e
           | Inr listed \<Rightarrow>
               (case py_iter listed of
                  Inl e \<Rightarrow> Inl e
                | Inr entries \<Rightarrow>
                    (case comprehension (\<lambda>model. py_get model ''name'' (JString [])) entries of
                       Inl e \<Rightarrow> Inl e
                     | Inr names \<Rightarrow>
                         (case py_sorted other names of
                            Inl e \<Rightarrow> Inl e
                          | Inr models \<Rightarrow>
                              if models = [] then Inr [JString ''llama3:latest'']
                              else Inr models)))))"

section \<open>Critique and rewrite\<close>

definition critique_prompt :: "string \<Rightarrow> string" where
  \<open>critique_prompt prompt =
     ''<task>\<newline>'' @
     ''You are a world-class prompt engineering expert. Your task is to analyze and critique the following user-provided prompt.\<newline>'' @
     ''Identify its weaknesses based on criteria like clarity, specificity, context, constraints, and desired output format.\<newline>'' @
     ''\<newline>'' @
     ''**User Prompt:**\<newline>'' @
     ''`'' @ prompt @ ''`\<newline>'' @
     ''\<newline>'' @
     ''Provide your critique in a <critique> XML tag. Be specific and constructive.\<newline>'' @
     ''</task>''\<close>

definition rewrite_prompt :: "string \<Rightarrow> string \<Rightarrow> string" where
  \<open>rewrite_prompt prompt crit =
     ''<task>\<newline>'' @
     ''You are a world-class prompt engineering expert. You will be given an original prompt and a critique of that prompt.\<newline>'' @
     ''Your task is to rewrite the original prompt to be a much more effective, "best-in-class" prompt, addressing all the points in the critique.\<newline>'' @
     ''The new prompt should be significantly more detailed and structured, incorporating principles like XML tagging, clear instructions, context, and examples where appropriate.\<newline>'' @
     ''\<newline>'' @
     ''**Original Prompt:**\<newline>'' @
     ''`'' @ prompt @ ''`\<newline>'' @
     ''\<newline>'' @
     ''**Critique:**\<newline>'' @
     crit @ ''\<newline>'' @
     ''\<newline>'' @
     ''Now, provide the new, rewritten prompt inside a <rewritten_prompt> XML tag. Output only the content for the new prompt, without the XML tag itself.\<newline>'' @
     ''</task>''\<close>

definition rewrite_prompt_with_ai ::
  "server \<Rightarrow> world \<Rightarrow> string \<Rightarrow> string \<Rightarrow> (string \<times> string) \<times> world" where
  "rewrite_prompt_with_ai srv w prompt model =
     (let (crit, w1) = call_ollama srv w (critique_prompt prompt) model;
          (rewritten_prompt, w2) = call_ollama srv w1 (rewrite_prompt prompt crit) model;
          crit' = py_strip (py_replace ''</critique>'' [] (py_replace ''<critique>'' [] crit));
          rewritten_prompt' =
            py_strip (py_replace ''</rewritten_prompt>'' []
                        (py_replace ''<rewritten_prompt>'' [] rewritten_prompt))
      in ((crit', rewritten_prompt'), w2))"

section \<open>The strategy selector\<close>

definition strategy_descriptions :: string where
  "strategy_descriptions =
     py_join ''\<newline>''
       (map (\<lambda>(key, details).
               ''- **'' @ key @ ''**: '' @ name details @ '' - '' @ description details)
          ENHANCEMENT_PATTERNS)"

definition meta_prompt :: "string \<Rightarrow> string" where
  \<open>meta_prompt prompt =
     ''<task>\<newline>'' @
     ''You are an expert in prompt engineering. Your task is to analyze the following user prompt and choose the single best enhancement strategy from the list provided.\<newline>'' @
     ''\<newline>'' @
     ''**User Prompt:**\<newline>'' @
     ''"'' @ prompt @ ''"\<newline>'' @
     ''\<newline>'' @
     ''**Available Enhancement Strategies:**\<newline>'' @
     strategy_descriptions @ ''\<newline>'' @
     ''\<newline>'' @
     ''**Instructions:**\<newline>'' @
     ''1. Read the user prompt carefully.\<newline>'' @
     ''2. For simple, short prompts, a template-based approach is fine.\<newline>'' @
     ''3. For more complex or vague prompts, `ai_rewrite` is usually the best choice.\<newline>'' @
     ''4. Respond with ONLY the identifier of your chosen strategy (e.g., xml_structure, ai_rewrite). Do not add any other text or explanation.\<newline>'' @
     ''</task>\<newline>'' @
     ''\<newline>'' @
     ''Chosen strategy identifier:''\<close>

definition choose_enhancement_strategy ::
  "server \<Rightarrow> world \<Rightarrow> string \<Rightarrow> string \<Rightarrow> string \<times> world" where
  "choose_enhancement_strategy srv w prompt model =
     (if length (py_split prompt) > 15 then (''ai_rewrite'', w)
      else
        (let (reply, w') = call_ollama srv w (meta_prompt prompt) model;
             chosen_strategy_raw = py_lower (py_strip reply)
         in (case find (\<lambda>key. py_in key chosen_strategy_raw) (map fst ENHANCEMENT_PATTERNS) of
               Some key \<Rightarrow> key
             | None \<Rightarrow> ''xml_structure'',
             w')))"

section \<open>The enhancer\<close>

text \<open>
  \<open>tmpl.format(original_prompt=prompt, **kwargs)\<close>: a \<open>kwargs\<close> that itself holds
  \<open>original_prompt\<close> gives the keyword twice, a \<open>TypeError\<close> raised before the template
  is read.
\<close>

definition format_template :: "string \<Rightarrow> string \<Rightarrow> (string \<times> string) list \<Rightarrow> exn + string" where
  "format_template tmpl prompt kwargs =
     (if ''original_prompt'' \<in> set (map fst kwargs) then Inl (MultipleValues ''original_prompt'')
      else py_format ((map_of kwargs)(''original_prompt'' \<mapsto> prompt)) None tmpl)"

text \<open>
  \<open>PromptEnhancer.enhance_prompt\<close>. \<open>now\<close> is what \<open>datetime.now().isoformat()\<close>
  reads, \<open>kwargs\<close> the keyword arguments of the call, in the order given. The result
  is \<open>Inl\<close> when the call raises.
\<close>

definition enhance_prompt ::
  "server \<Rightarrow> string \<Rightarrow> world \<Rightarrow> string \<Rightarrow> string \<Rightarrow> (string \<times> string) list
     \<Rightarrow> (exn + string) \<times> world" where
  "enhance_prompt srv now w prompt enhancement_type kwargs =
     (case map_of ENHANCEMENT_PATTERNS enhancement_type of
        None \<Rightarrow> (Inr prompt, w)
      | Some pat \<Rightarrow>
          if enhancement_type = ''ai_rewrite'' then
            (let ((crit, rewritten_prompt), w') =
                   rewrite_prompt_with_ai srv w prompt
                     (case map_of kwargs ''model'' of None \<Rightarrow> ''llama3'' | Some m \<Rightarrow> m)
             in (Inr rewritten_prompt, w'\<lparr>critique := Some crit\<rparr>))
          else
            (case (case template pat of
                     None \<Rightarrow> Inl (AttributeError (no_attribute JNull ''format''))
                   | Some tmpl \<Rightarrow> format_template tmpl prompt kwargs) of
               Inl e \<Rightarrow> (Inl e, w)
             | Inr enhanced_text \<Rightarrow>
                 (Inr enhanced_text,
                  w\<lparr>enhancement_history := enhancement_history w @
                       [\<lparr>timestamp = now, original = prompt, enhanced = enhanced_text,
                         type' = enhancement_type, parameters = kwargs\<rparr>]\<rparr>)))"

section \<open>Reading a template\<close>

text \<open>
  What \<^const>\<open>py_format\<close> meets in a template, in order: the characters it copies and
  the fields it fills. The scan is the one \<^const>\<open>py_format\<close> makes and it stops where
  \<^const>\<open>py_format\<close> stops on the template's syntax.
\<close>

datatype piece = Lit char | Field string

fun pieces :: "string option \<Rightarrow> string \<Rightarrow> piece list" where
  "pieces None [] = []"
| "pieces (Some f) [] = []"
| "pieces None (c # cs) =
     (if c = CHR ''{'' then
        (case cs of
           [] \<Rightarrow> []
         | d # ds \<Rightarrow> if d = CHR ''{'' then Lit c # pieces None ds else pieces (Some []) cs)
      else if c = CHR ''}'' then
        (case cs of
           [] \<Rightarrow> []
         | d # ds \<Rightarrow> if d = CHR ''}'' then Lit c # pieces None ds else [])
      else Lit c # pieces None cs)"
| "pieces (Some f) (c # cs) =
     (if c = CHR ''}'' then Field f # pieces None cs
      else if c \<in> set ''!:.[{'' then []
      else pieces (Some (f @ [c])) cs)"

text \<open>The named placeholders of a template.\<close>

definition placeholders :: "string \<Rightarrow> string list" where
  "placeholders tmpl = [f. Field f \<leftarrow> pieces None tmpl]"

text \<open>
  A fixed token of a template: a run of characters that the template holds outside
  its fields.
\<close>

definition fixed_token :: "string \<Rightarrow> string \<Rightarrow> bool" where
  "fixed_token tmpl tok \<longleftrightarrow> sublist (map Lit tok) (pieces None tmpl)"

fun render :: "(string \<rightharpoonup> string) \<Rightarrow> piece \<Rightarrow> string" where
  "render kw (Lit c) = [c]"
| "render kw (Field f) = (case kw f of None \<Rightarrow> [] | Some v \<Rightarrow> v)"

section \<open>The listed models\<close>

text \<open>
  The name an entry of the model list stands for: its \<open>name\<close> when it has one, the
  empty string otherwise.
\<close>

fun entry_name :: "json \<Rightarrow> string" where
  "entry_name (JObject kvs) = (case map_of kvs ''name'' of Some (JString s) \<Rightarrow> s | _ \<Rightarrow> [])"
| "entry_name v = []"

text \<open>An entry as the endpoint documents it: an object whose \<open>name\<close>, if any, is a string.\<close>

fun well_typed_entry :: "json \<Rightarrow> bool" where
  "well_typed_entry (JObject kvs) =
     (case map_of kvs ''name'' of None \<Rightarrow> True | Some (JString s) \<Rightarrow> True | Some v \<Rightarrow> False)"
| "well_typed_entry v = False"

section \<open>Sample worlds and endpoints\<close>

definition empty_world :: world where
  "empty_world = \<lparr>enhancement_history = [], critique = None, sent = []\<rparr>"

text \<open>An endpoint nobody listens on.\<close>

definition unreachable_server :: server where
  "unreachable_server earlier req = Failed ''connection refused''"

text \<open>An endpoint that answers every request with the same text.\<close>

definition replying_server :: "string \<Rightarrow> server" where
  "replying_server text earlier req = Body (JObject [(''response'', JString text)])"

text \<open>An endpoint that answers its first request with one text and the later ones with another.\<close>

definition critic_server :: "string \<Rightarrow> string \<Rightarrow> server" where
  "critic_server first later earlier req =
     Body (JObject [(''response'', JString (if earlier = [] then first else later))])"

text \<open>A stand-in for \<open>sorted\<close> on lists that are not all strings.\<close>

definition sorted_elsewhere :: "json list \<Rightarrow> exn + json list" where
  "sorted_elsewhere vs = Inl NotModelled"

text \<open>An endpoint whose answers are JSON lists, not objects.\<close>

definition malformed_server :: server where
  "malformed_server earlier req = Body (JArray [])"

text \<open>An endpoint whose answers are objects without a \<open>response\<close>.\<close>

definition silent_server :: server where
  "silent_server earlier req = Body (JObject [(''done'', JBool True)])"

section \<open>Facts about the catalog\<close>

lemma catalog_keys:
  "map fst ENHANCEMENT_PATTERNS =
     [''ai_rewrite'', ''xml_structure'', ''chain_of_thought'', ''role_prompting'',
      ''multishot_examples'']"
  by (simp add: ENHANCEMENT_PATTERNS_def)

section \<open>The enhancer on identifiers outside the catalog\<close>

text \<open>
  Claim C4. For every prompt, every identifier that is not a key of the pattern
  catalog and any extra parameters, \<open>enhance_prompt\<close> returns exactly the prompt, does
  not raise, and leaves the world as it was: no request is sent to the endpoint, the
  history and the critique are untouched.
\<close>

theorem enhance_unknown_identifier:
  assumes "enhancement_type \<notin> set (map fst ENHANCEMENT_PATTERNS)"
  shows "enhance_prompt srv now w prompt enhancement_type kwargs = (Inr prompt, w)"
proof -
  from assms have "map_of ENHANCEMENT_PATTERNS enhancement_type = None"
    by (simp only: map_of_eq_None_iff set_map not_False_eq_True)
  then show ?thesis
    by (simp add: enhance_prompt_def)
qed

theorem enhance_unknown_identifier_witness:
  "''summarise'' \<notin> set (map fst ENHANCEMENT_PATTERNS) \<and>
   enhance_prompt unreachable_server ''2024-06-01T12:00:00'' empty_world ''test prompt''
     ''summarise'' [(''model'', ''llama3:latest'')] = (Inr ''test prompt'', empty_world)"
proof -
  have h: "''summarise'' \<notin> set (map fst ENHANCEMENT_PATTERNS)"
    by (simp add: catalog_keys)
  show ?thesis
    using h enhance_unknown_identifier [OF h] by simp
qed

section \<open>The strategy selector\<close>

text \<open>
  Claim C2. For every prompt of more than 15 whitespace-separated words and every
  model, \<open>choose_enhancement_strategy\<close> returns \<open>ai_rewrite\<close> and the world is
  unchanged: in particular no generate request was sent.
\<close>

theorem choose_long_prompt:
  assumes "15 < length (py_split prompt)"
  shows "choose_enhancement_strategy srv w prompt model = (''ai_rewrite'', w)"
  using assms by (simp add: choose_enhancement_strategy_def)

theorem choose_long_prompt_witness:
  "15 < length (py_split ''a b c d e f g h i j k l m n o p'') \<and>
   choose_enhancement_strategy (replying_server ''xml_structure'') empty_world
     ''a b c d e f g h i j k l m n o p'' ''llama3'' = (''ai_rewrite'', empty_world)"
proof -
  have h: "15 < length (py_split ''a b c d e f g h i j k l m n o p'')"
    by (simp add: py_split_def isspace_def)
  show ?thesis
    using h choose_long_prompt [OF h] by simp
qed

text \<open>
  Claim C3. For every prompt of at most 15 words, when the generate call made for the
  meta-prompt returns \<open>reply\<close>, the selector trims and lower-cases the reply and
  returns the first of \<open>ai_rewrite\<close>, \<open>xml_structure\<close>, \<open>chain_of_thought\<close>,
  \<open>role_prompting\<close>, \<open>multishot_examples\<close> that occurs in it, and \<open>xml_structure\<close>
  when none does.
\<close>

theorem choose_short_prompt:
  assumes "length (py_split prompt) \<le> 15"
    and "call_ollama srv w (meta_prompt prompt) model = (reply, w')"
  shows "choose_enhancement_strategy srv w prompt model =
     (let normalized = py_lower (py_strip reply)
      in if py_in ''ai_rewrite'' normalized then ''ai_rewrite''
         else if py_in ''xml_structure'' normalized then ''xml_structure''
         else if py_in ''chain_of_thought'' normalized then ''chain_of_thought''
         else if py_in ''role_prompting'' normalized then ''role_prompting''
         else if py_in ''multishot_examples'' normalized then ''multishot_examples''
         else ''xml_structure'',
      w')"
  using assms
  by (simp add: choose_enhancement_strategy_def catalog_keys Let_def)

theorem choose_short_prompt_witness:
  "length (py_split ''short prompt'') \<le> 15 \<and>
   fst (choose_enhancement_strategy (replying_server '' I pick Chain_Of_Thought. '') empty_world
     ''short prompt'' ''llama3'') = ''chain_of_thought''"
proof -
  let ?srv = "replying_server '' I pick Chain_Of_Thought. ''"
  have h: "length (py_split ''short prompt'') \<le> 15"
    by (simp add: py_split_def isspace_def)
  have r: "fst (call_ollama ?srv empty_world (meta_prompt ''short prompt'') ''llama3'') = ''I pick Chain_Of_Thought.''"
    by (simp add: call_ollama_def call_ollama_try_def replying_server_def py_strip_def isspace_def Let_def)
  have c: "call_ollama ?srv empty_world (meta_prompt ''short prompt'') ''llama3'' =
      (''I pick Chain_Of_Thought.'', snd (call_ollama ?srv empty_world (meta_prompt ''short prompt'') ''llama3''))"
    using r by (simp add: prod_eq_iff)
  have n: "py_lower (py_strip ''I pick Chain_Of_Thought.'') = ''i pick chain_of_thought.''"
    by code_simp
  show ?thesis
    using h choose_short_prompt [OF h c]
    by (simp add: n py_in_def sublist_code Let_def)
qed

section \<open>The model client\<close>

text \<open>
  Claim C7. \<open>call_ollama\<close> always returns a string. When the endpoint answers with an
  object whose \<open>response\<close> is a text, the result is that text with surrounding
  whitespace trimmed. When the exchange fails (no connection, timeout, error status,
  undecodable body) the result is the text \<open>[Ollama Error: ...]\<close> around the failure's
  message, and when the answer is JSON of another shape (not an object, or an object
  whose \<open>response\<close> is not a text) the result is again a text of that form: the handler
  of the \<open>try\<close> turns every exception of the body into a returned string. When the
  answer is an object without a \<open>response\<close> the result is the text
  \<open>[No response from Ollama]\<close>. These five cases are all the outcomes of an exchange.
  Failure and success share the one channel: an endpoint that answers with the text
  of an error gives the same result as one that failed.
\<close>

theorem call_ollama_results:
  "(srv (sent w) \<lparr>req_model = model, req_prompt = prompt, req_stream = False\<rparr> =
       Body (JObject kvs) \<and> map_of kvs ''response'' = Some (JString text) \<longrightarrow>
     fst (call_ollama srv w prompt model) = py_strip text)
   \<and> (srv (sent w) \<lparr>req_model = model, req_prompt = prompt, req_stream = False\<rparr> =
       Failed msg \<longrightarrow>
     fst (call_ollama srv w prompt model) = ''[Ollama Error: '' @ msg @ '']'')
   \<and> (srv (sent w) \<lparr>req_model = model, req_prompt = prompt, req_stream = False\<rparr> =
       Body data \<and>
       ((\<forall>items. data \<noteq> JObject items) \<or>
        (\<exists>items v. data = JObject items \<and> map_of items ''response'' = Some v \<and>
           (\<forall>t. v \<noteq> JString t))) \<longrightarrow>
     (\<exists>e. fst (call_ollama srv w prompt model) = ''[Ollama Error: '' @ e @ '']''))
   \<and> (srv (sent w) \<lparr>req_model = model, req_prompt = prompt, req_stream = False\<rparr> =
       Body (JObject kvs) \<and> map_of kvs ''response'' = None \<longrightarrow>
     fst (call_ollama srv w prompt model) = ''[No response from Ollama]'')
   \<and> fst (call_ollama (replying_server ''[Ollama Error: connection refused]'') w prompt model) =
     fst (call_ollama unreachable_server w prompt model)"
proof (intro conjI impI)
  assume "srv (sent w) \<lparr>req_model = model, req_prompt = prompt, req_stream = False\<rparr> =
       Body (JObject kvs) \<and> map_of kvs ''response'' = Some (JString text)"
  then show "fst (call_ollama srv w prompt model) = py_strip text"
    by (simp add: call_ollama_def call_ollama_try_def Let_def)
next
  assume "srv (sent w) \<lparr>req_model = model, req_prompt = prompt, req_stream = False\<rparr> =
       Failed msg"
  then show "fst (call_ollama srv w prompt model) = ''[Ollama Error: '' @ msg @ '']''"
    by (simp add: call_ollama_def call_ollama_try_def Let_def)
next
  assume a: "srv (sent w) \<lparr>req_model = model, req_prompt = prompt, req_stream = False\<rparr> =
       Body data \<and>
       ((\<forall>items. data \<noteq> JObject items) \<or>
        (\<exists>items v. data = JObject items \<and> map_of items ''response'' = Some v \<and>
           (\<forall>t. v \<noteq> JString t)))"
  then have "\<exists>e. call_ollama_try (Body data) = Inl e"
    by (auto simp: call_ollama_try_def split: json.splits)
  with a show "\<exists>e. fst (call_ollama srv w prompt model) = ''[Ollama Error: '' @ e @ '']''"
    by (auto simp: call_ollama_def Let_def)
next
  assume "srv (sent w) \<lparr>req_model = model, req_prompt = prompt, req_stream = False\<rparr> =
       Body (JObject kvs) \<and> map_of kvs ''response'' = None"
  then show "fst (call_ollama srv w prompt model) = ''[No response from Ollama]''"
    by (simp add: call_ollama_def call_ollama_try_def Let_def py_strip_def isspace_def)
next
  show "fst (call_ollama (replying_server ''[Ollama Error: connection refused]'') w prompt model) =
     fst (call_ollama unreachable_server w prompt model)"
    by (simp add: call_ollama_def call_ollama_try_def Let_def replying_server_def
        unreachable_server_def py_strip_def isspace_def)
qed

theorem call_ollama_results_witness:
  "fst (call_ollama (replying_server ''  Paris. \<newline>'') empty_world ''Capital of France?'' ''llama3'') =
     ''Paris.''
   \<and> fst (call_ollama unreachable_server empty_world ''Capital of France?'' ''llama3'') =
     ''[Ollama Error: connection refused]''
   \<and> (\<exists>e. fst (call_ollama malformed_server empty_world ''Capital of France?'' ''llama3'') =
     ''[Ollama Error: '' @ e @ '']'')
   \<and> fst (call_ollama silent_server empty_world ''Capital of France?'' ''llama3'') =
     ''[No response from Ollama]''"
proof -
  let ?req = "\<lparr>req_model = ''llama3'', req_prompt = ''Capital of France?'', req_stream = False\<rparr>"
  have a: "replying_server ''  Paris. \<newline>'' (sent empty_world) ?req =
      Body (JObject [(''response'', JString ''  Paris. \<newline>'')]) \<and>
      map_of [(''response'', JString ''  Paris. \<newline>'')] ''response'' = Some (JString ''  Paris. \<newline>'')"
    by (simp add: replying_server_def)
  have b: "unreachable_server (sent empty_world) ?req = Failed ''connection refused''"
    by (simp add: unreachable_server_def)
  have c: "malformed_server (sent empty_world) ?req = Body (JArray []) \<and>
       ((\<forall>items. JArray [] \<noteq> JObject items) \<or>
        (\<exists>items v. JArray [] = JObject items \<and> map_of items ''response'' = Some v \<and>
           (\<forall>t. v \<noteq> JString t)))"
    by (simp add: malformed_server_def)
  have d: "silent_server (sent empty_world) ?req = Body (JObject [(''done'', JBool True)]) \<and>
      map_of [(''done'', JBool True)] ''response'' = None"
    by (simp add: silent_server_def)
  have s: "py_strip ''  Paris. \<newline>'' = ''Paris.''"
    by (simp add: py_strip_def isspace_def)
  from a call_ollama_results [of "replying_server ''  Paris. \<newline>''" empty_world "''llama3''"
      "''Capital of France?''" "[(''response'', JString ''  Paris. \<newline>'')]" "''  Paris. \<newline>''"]
  have 1: "fst (call_ollama (replying_server ''  Paris. \<newline>'') empty_world ''Capital of France?'' ''llama3'') =
     ''Paris.''"
    by (simp only: s)
  from b call_ollama_results [of unreachable_server empty_world "''llama3''"
      "''Capital of France?''" _ _ "''connection refused''"]
  have 2: "fst (call_ollama unreachable_server empty_world ''Capital of France?'' ''llama3'') =
     ''[Ollama Error: connection refused]''"
    by simp
  from c call_ollama_results [of malformed_server empty_world "''llama3''"
      "''Capital of France?''" _ _ _ "JArray []"]
  have 3: "\<exists>e. fst (call_ollama malformed_server empty_world ''Capital of France?'' ''llama3'') =
     ''[Ollama Error: '' @ e @ '']''"
    by blast
  from d call_ollama_results [of silent_server empty_world "''llama3''"
      "''Capital of France?''" "[(''done'', JBool True)]"]
  have 4: "fst (call_ollama silent_server empty_world ''Capital of France?'' ''llama3'') =
     ''[No response from Ollama]''"
    by blast
  from 1 2 3 4 show ?thesis by blast
qed

section \<open>Listing the models\<close>

lemma comprehension_names:
  "\<forall>m \<in> set ms. well_typed_entry m \<Longrightarrow>
   comprehension (\<lambda>model. py_get model ''name'' (JString [])) ms =
     Inr (map (\<lambda>m. JString (entry_name m)) ms)"
proof (induction ms)
  case Nil
  then show ?case by simp
next
  case (Cons m ms)
  from Cons.prems obtain kvs where m: "m = JObject kvs"
    by (cases m) auto
  from Cons.prems m have "py_get m ''name'' (JString []) = Inr (JString (entry_name m))"
    by (auto split: option.splits json.splits)
  with Cons show ?case by simp
qed

lemma strings_of_map_JString: "strings_of (map JString ss) = Some ss"
  by (induction ss) auto

lemma py_sorted_strings: "py_sorted other (map JString ss) = Inr (map JString (sort ss))"
  by (simp add: py_sorted_def strings_of_map_JString)

lemma listed_models:
  assumes "map_of kvs ''models'' = Some (JArray ms)"
    and "ms \<noteq> []"
    and "\<forall>m \<in> set ms. well_typed_entry m"
  shows "get_ollama_models other (Body (JObject kvs)) =
     Inr (map JString (sort (map entry_name ms)))"
proof -
  have "py_sorted other (map (\<lambda>m. JString (entry_name m)) ms) =
      Inr (map JString (sort (map entry_name ms)))"
    using py_sorted_strings [of other "map entry_name ms"] by (simp add: comp_def)
  moreover from assms(2) have "sort (map entry_name ms) \<noteq> []"
    by (metis length_sort length_0_conv map_is_Nil_conv)
  ultimately show ?thesis
    using assms by (simp add: get_ollama_models_def comprehension_names)
qed

text \<open>
  Claim C8, amended. \<open>get_ollama_models\<close> returns the empty list when the exchange
  fails with a \<open>RequestException\<close> (no connection, timeout, error status, a body that
  is not JSON), and on no other outcome; on an answer whose model list is empty or
  absent it returns exactly \<open>[llama3:latest]\<close>; and on an answer listing the one model
  \<open>llama3:latest\<close> it returns exactly \<open>[llama3:latest]\<close>.
\<close>

theorem list_models_failure_and_default:
  "get_ollama_models other (Failed msg) = Inr []
   \<and> (get_ollama_models other outcome = Inr [] \<longrightarrow> (\<exists>m. outcome = Failed m))
   \<and> (map_of kvs ''models'' = Some (JArray []) \<or> map_of kvs ''models'' = None \<longrightarrow>
        get_ollama_models other (Body (JObject kvs)) = Inr [JString ''llama3:latest''])
   \<and> (map_of kvs ''models'' = Some (JArray [JObject entry]) \<and>
      map_of entry ''name'' = Some (JString ''llama3:latest'') \<longrightarrow>
        get_ollama_models other (Body (JObject kvs)) = Inr [JString ''llama3:latest''])"
proof (intro conjI impI)
  show "get_ollama_models other (Failed msg) = Inr []"
    by (simp add: get_ollama_models_def)
next
  assume "get_ollama_models other outcome = Inr []"
  then show "\<exists>m. outcome = Failed m"
    by (cases outcome)
      (auto simp: get_ollama_models_def split: sum.splits if_splits)
next
  assume "map_of kvs ''models'' = Some (JArray []) \<or> map_of kvs ''models'' = None"
  then show "get_ollama_models other (Body (JObject kvs)) = Inr [JString ''llama3:latest'']"
    by (auto simp: get_ollama_models_def py_sorted_def)
next
  assume "map_of kvs ''models'' = Some (JArray [JObject entry]) \<and>
      map_of entry ''name'' = Some (JString ''llama3:latest'')"
  then show "get_ollama_models other (Body (JObject kvs)) = Inr [JString ''llama3:latest'']"
    by (auto simp: get_ollama_models_def py_sorted_def)
qed

theorem list_models_failure_and_default_witness:
  "get_ollama_models sorted_elsewhere (Failed ''connection refused'') = Inr []
   \<and> get_ollama_models sorted_elsewhere (Body (JObject [(''models'', JArray [])])) =
       Inr [JString ''llama3:latest'']
   \<and> get_ollama_models sorted_elsewhere (Body (JObject [])) = Inr [JString ''llama3:latest'']
   \<and> get_ollama_models sorted_elsewhere
       (Body (JObject [(''models'', JArray [JObject [(''name'', JString ''llama3:latest'')]])])) =
       Inr [JString ''llama3:latest'']"
  using list_models_failure_and_default [of sorted_elsewhere "''connection refused''"
      "Failed ''connection refused''" "[(''models'', JArray [])]" "[]"]
    list_models_failure_and_default [of sorted_elsewhere "''connection refused''"
      "Failed ''connection refused''" "[]" "[]"]
    list_models_failure_and_default [of sorted_elsewhere "''connection refused''"
      "Failed ''connection refused''"
      "[(''models'', JArray [JObject [(''name'', JString ''llama3:latest'')]])]"
      "[(''name'', JString ''llama3:latest'')]"]
  by simp

text \<open>
  As stated, for any network or parsing failure, the claim fails. The handler of
  \<open>get_ollama_models\<close> names \<open>RequestException\<close> alone, so an answer that decodes but
  cannot be read as a model list is a failure it does not turn into the empty list:
  for the document \<open>[]\<close> the call \<open>data.get\<close> raises an \<open>AttributeError\<close>, for the
  document \<open>{"models": null}\<close> the loop over \<open>None\<close> raises a \<open>TypeError\<close>, and both
  leave the function.
\<close>

theorem list_models_shape_counterexample:
  "get_ollama_models sorted_elsewhere (Body (JArray [])) =
     Inl (AttributeError (no_attribute (JArray []) ''get''))
   \<and> get_ollama_models sorted_elsewhere (Body (JArray [])) \<noteq> Inr []
   \<and> get_ollama_models sorted_elsewhere (Body (JObject [(''models'', JNull)])) =
     Inl (NotIterable ''NoneType'')
   \<and> get_ollama_models sorted_elsewhere (Body (JObject [(''models'', JNull)])) \<noteq> Inr []"
  by (simp add: get_ollama_models_def)

text \<open>
  Claim C10. On an answer with a non-empty model list whose entries are objects with
  a string \<open>name\<close> or none, \<open>get_ollama_models\<close> returns the names in ascending
  lexicographic order, an entry without a name counting as the empty string; the
  result is a sorted rearrangement of the names and is the same for every order in
  which the endpoint lists the entries.
\<close>

theorem list_models_sorted:
  assumes "map_of kvs ''models'' = Some (JArray ms)"
    and "ms \<noteq> []"
    and "\<forall>m \<in> set ms. well_typed_entry m"
  shows "get_ollama_models other (Body (JObject kvs)) =
       Inr (map JString (sort (map entry_name ms)))
    \<and> sorted (sort (map entry_name ms))
    \<and> mset (sort (map entry_name ms)) = mset (map entry_name ms)
    \<and> (\<forall>kvs' ms'. map_of kvs' ''models'' = Some (JArray ms') \<and> mset ms' = mset ms \<longrightarrow>
          get_ollama_models other (Body (JObject kvs')) =
          get_ollama_models other (Body (JObject kvs)))"
proof -
  have perm: "get_ollama_models other (Body (JObject kvs')) =
      get_ollama_models other (Body (JObject kvs))"
    if "map_of kvs' ''models'' = Some (JArray ms')" "mset ms' = mset ms" for kvs' ms'
  proof -
    from that(2) have s: "set ms' = set ms" by (rule mset_eq_setD)
    from that(2) assms(2) have ne: "ms' \<noteq> []" by auto
    from that(2) have "mset (map entry_name ms') = mset (map entry_name ms)" by simp
    then have "sort (map entry_name ms') = sort (map entry_name ms)"
      by (simp add: properties_for_sort)
    moreover from s assms(3) have "\<forall>m \<in> set ms'. well_typed_entry m" by simp
    ultimately show ?thesis
      using listed_models [OF that(1) ne] listed_models [OF assms] by simp
  qed
  from listed_models [OF assms] perm show ?thesis by auto
qed

theorem list_models_sorted_witness:
  "get_ollama_models sorted_elsewhere
     (Body (JObject [(''models'', JArray [JObject [(''name'', JString ''mistral:7b'')],
         JObject [(''size'', JInt 1)], JObject [(''name'', JString ''llama3:latest'')]])])) =
     Inr [JString [], JString ''llama3:latest'', JString ''mistral:7b'']
   \<and> get_ollama_models sorted_elsewhere
     (Body (JObject [(''models'', JArray [JObject [(''name'', JString ''llama3:latest'')],
         JObject [(''name'', JString ''mistral:7b'')], JObject [(''size'', JInt 1)]])])) =
     Inr [JString [], JString ''llama3:latest'', JString ''mistral:7b'']"
proof -
  let ?ms = "[JObject [(''name'', JString ''mistral:7b'')], JObject [(''size'', JInt 1)],
         JObject [(''name'', JString ''llama3:latest'')]]"
  let ?ms' = "[JObject [(''name'', JString ''llama3:latest'')],
         JObject [(''name'', JString ''mistral:7b'')], JObject [(''size'', JInt 1)]]"
  have a: "map_of [(''models'', JArray ?ms)] ''models'' = Some (JArray ?ms)" by simp
  have b: "?ms \<noteq> []" by simp
  have c: "\<forall>m \<in> set ?ms. well_typed_entry m" by simp
  have d: "sort (map entry_name ?ms) = [[], ''llama3:latest'', ''mistral:7b'']" by code_simp
  note t = list_models_sorted [OF a b c, of sorted_elsewhere]
  from t have e: "get_ollama_models sorted_elsewhere (Body (JObject [(''models'', JArray ?ms)])) =
      Inr (map JString (sort (map entry_name ?ms)))"
    by (rule conjunct1)
  have a': "map_of [(''models'', JArray ?ms')] ''models'' = Some (JArray ?ms')" by simp
  have p: "mset ?ms' = mset ?ms" by (simp add: add.commute)
  from t a' p have f: "get_ollama_models sorted_elsewhere (Body (JObject [(''models'', JArray ?ms')])) =
      get_ollama_models sorted_elsewhere (Body (JObject [(''models'', JArray ?ms)]))"
    by blast
  show ?thesis
    unfolding f e d by simp
qed

section \<open>Filling a template\<close>

lemma emit_Inr: "emit v r = Inr out \<longleftrightarrow> (\<exists>s. r = Inr s \<and> out = v @ s)"
  by (auto simp: emit_def split: sum.splits)

lemma get_field_Inr: "get_field kw f = Inr v \<Longrightarrow> kw f = Some v"
  by (auto simp: get_field_def split: if_splits option.splits)

text \<open>A filled template is its pieces, each field replaced by its value.\<close>

lemma py_format_pieces:
  "py_format kw st s = Inr out \<Longrightarrow> out = concat (map (render kw) (pieces st s))"
proof (induction kw st s arbitrary: out rule: py_format.induct)
  case (1 kw)
  then show ?case by simp
next
  case (2 kw f)
  then show ?case by simp
next
  case (3 kw c cs)
  then show ?case
    by (auto simp: emit_Inr simp del: py_format.simps(4) pieces.simps(4)
          split: if_splits list.splits)
next
  case (4 kw f c cs)
  then show ?case
    by (auto simp: emit_Inr split: if_splits sum.splits dest: get_field_Inr)
qed

text \<open>Filling succeeds only if every field has a value.\<close>

lemma py_format_fields_present:
  "py_format kw st s = Inr out \<Longrightarrow> Field f \<in> set (pieces st s) \<Longrightarrow> \<exists>v. kw f = Some v"
proof (induction kw st s arbitrary: out rule: py_format.induct)
  case (1 kw)
  then show ?case by simp
next
  case (2 kw f)
  then show ?case by simp
next
  case (3 kw c cs)
  then show ?case
    by (auto simp: emit_Inr simp del: py_format.simps(4) pieces.simps(4)
          split: if_splits list.splits)
next
  case (4 kw g c cs)
  then show ?case
    by (auto simp: emit_Inr split: if_splits sum.splits dest: get_field_Inr)
qed

text \<open>Whether filling succeeds hangs only on which fields have values.\<close>

lemma py_format_succeeds:
  "py_format kw st s = Inr out \<Longrightarrow>
   \<forall>f. Field f \<in> set (pieces st s) \<longrightarrow> kw' f \<noteq> None \<Longrightarrow>
   \<exists>out'. py_format kw' st s = Inr out'"
proof (induction kw st s arbitrary: out rule: py_format.induct)
  case (1 kw)
  then show ?case by simp
next
  case (2 kw f)
  then show ?case by simp
next
  case (3 kw c cs)
  then show ?case
    by (auto simp: emit_Inr simp del: py_format.simps(4) pieces.simps(4)
          split: if_splits list.splits)
next
  case (4 kw g c cs)
  then show ?case
    by (auto simp: emit_Inr get_field_def split: if_splits sum.splits option.splits)
qed

lemma placeholders_iff: "f \<in> set (placeholders tmpl) \<longleftrightarrow> Field f \<in> set (pieces None tmpl)"
proof -
  have "f \<in> set [g. Field g \<leftarrow> ps] \<longleftrightarrow> Field f \<in> set ps" for ps
    by (induction ps) (auto split: piece.splits)
  then show ?thesis by (simp add: placeholders_def)
qed

lemma sublist_render_member:
  "p \<in> set ps \<Longrightarrow> sublist (render kw p) (concat (map (render kw) ps))"
  by (auto dest!: split_list)

lemma render_Lits: "concat (map (render kw \<circ> Lit) tok) = tok"
  by (induction tok) auto

lemma sublist_render_Lits:
  assumes "sublist (map Lit tok) ps"
  shows "sublist tok (concat (map (render kw) ps))"
proof -
  from assms obtain a b where "ps = a @ map Lit tok @ b"
    by (auto simp: sublist_def)
  then have "concat (map (render kw) ps) =
      concat (map (render kw) a) @ tok @ concat (map (render kw) b)"
    by (simp add: render_Lits)
  then show ?thesis
    by (simp only: sublist_appendI)
qed

lemma isl_no_Inr: "\<not> isl r \<Longrightarrow> \<exists>out. r = Inr out"
  by (cases r) auto

lemma xml_structure_template_reads:
  "\<not> isl (py_format (\<lambda>f. Some []) None xml_structure_template)"
  "''original_prompt'' \<in> set (placeholders xml_structure_template)"
  by code_simp+

lemma chain_of_thought_template_reads:
  "\<not> isl (py_format (\<lambda>f. Some []) None chain_of_thought_template)"
  "''original_prompt'' \<in> set (placeholders chain_of_thought_template)"
  by code_simp+

lemma role_prompting_template_reads:
  "\<not> isl (py_format (\<lambda>f. Some []) None role_prompting_template)"
  "''original_prompt'' \<in> set (placeholders role_prompting_template)"
  by code_simp+

lemma multishot_examples_template_reads:
  "\<not> isl (py_format (\<lambda>f. Some []) None multishot_examples_template)"
  "''original_prompt'' \<in> set (placeholders multishot_examples_template)"
  by code_simp+

section \<open>The enhancer on template patterns\<close>

lemma catalog_entry:
  assumes "(enhancement_type, pat) \<in> set ENHANCEMENT_PATTERNS"
    and "template pat = Some tmpl"
  shows "map_of ENHANCEMENT_PATTERNS enhancement_type = Some pat"
    and "enhancement_type \<noteq> ''ai_rewrite''"
    and "tmpl \<in> {xml_structure_template, chain_of_thought_template, role_prompting_template,
           multishot_examples_template}"
  using assms by (auto simp: ENHANCEMENT_PATTERNS_def)

lemma catalog_template_reads:
  assumes "tmpl \<in> {xml_structure_template, chain_of_thought_template, role_prompting_template,
           multishot_examples_template}"
  shows "\<exists>out. py_format (\<lambda>f. Some []) None tmpl = Inr out"
    and "Field ''original_prompt'' \<in> set (pieces None tmpl)"
  using assms xml_structure_template_reads chain_of_thought_template_reads
    role_prompting_template_reads multishot_examples_template_reads
  by (auto simp: placeholders_iff dest: isl_no_Inr)

lemma enhance_template_pattern:
  assumes "(enhancement_type, pat) \<in> set ENHANCEMENT_PATTERNS"
    and "template pat = Some tmpl"
  shows "enhance_prompt srv now w prompt enhancement_type kwargs =
     (case format_template tmpl prompt kwargs of
        Inl e \<Rightarrow> (Inl e, w)
      | Inr out \<Rightarrow>
          (Inr out,
           w\<lparr>enhancement_history := enhancement_history w @
                [\<lparr>timestamp = now, original = prompt, enhanced = out,
                  type' = enhancement_type, parameters = kwargs\<rparr>]\<rparr>))"
  using catalog_entry(1,2) [OF assms] assms(2)
  by (simp add: enhance_prompt_def)

lemma xml_structure_placeholders:
  "placeholders xml_structure_template = [''original_prompt'']"
  by code_simp

lemma xml_structure_instructions:
  "fixed_token xml_structure_template ''<instructions>''"
  by code_simp

lemma role_prompting_persona:
  "''persona'' \<in> set (placeholders role_prompting_template)"
  by code_simp

lemma xml_structure_entry:
  "(''xml_structure'',
    \<lparr>name = ''XML Structure Enhancement'',
     description = ''Uses XML tags for clear prompt organization (Anthropic's signature technique)'',
     template = Some xml_structure_template\<rparr>) \<in> set ENHANCEMENT_PATTERNS"
  by (simp add: ENHANCEMENT_PATTERNS_def)

lemma role_prompting_entry:
  "(''role_prompting'',
    \<lparr>name = ''Role-Based Prompting'',
     description = ''Assigns specific expert roles for domain expertise'',
     template = Some role_prompting_template\<rparr>) \<in> set ENHANCEMENT_PATTERNS"
  by (simp add: ENHANCEMENT_PATTERNS_def)

text \<open>
  Claim C1, as amended. For every pattern of the catalog that has a template and every
  prompt, a call of \<open>enhance_prompt\<close> whose extra parameters supply every placeholder
  of the template other than \<open>original_prompt\<close>, and do not themselves name
  \<open>original_prompt\<close>, returns a string that holds the prompt verbatim and every fixed
  token of the template, such as \<open><instructions>\<close> for \<open>xml_structure\<close>.
\<close>

theorem enhance_template_contains_prompt:
  assumes "(enhancement_type, pat) \<in> set ENHANCEMENT_PATTERNS"
    and "template pat = Some tmpl"
    and "\<forall>f \<in> set (placeholders tmpl). f \<noteq> ''original_prompt'' \<longrightarrow> f \<in> set (map fst kwargs)"
    and "''original_prompt'' \<notin> set (map fst kwargs)"
  shows "\<exists>out. fst (enhance_prompt srv now w prompt enhancement_type kwargs) = Inr out
      \<and> py_in prompt out
      \<and> (\<forall>tok. fixed_token tmpl tok \<longrightarrow> py_in tok out)"
proof -
  let ?kw = "(map_of kwargs)(''original_prompt'' \<mapsto> prompt)"
  note reads = catalog_template_reads [OF catalog_entry(3) [OF assms(1,2)]]
  have "?kw f \<noteq> None" if "Field f \<in> set (pieces None tmpl)" for f
  proof (cases "f = ''original_prompt''")
    case True
    then show ?thesis by simp
  next
    case False
    with that assms(3) have "f \<in> set (map fst kwargs)"
      by (simp add: placeholders_iff)
    then have "map_of kwargs f \<noteq> None"
      by (simp add: map_of_eq_None_iff)
    with False show ?thesis by simp
  qed
  with reads(1) obtain out where out: "py_format ?kw None tmpl = Inr out"
    using py_format_succeeds [of "\<lambda>f. Some []" None tmpl _ ?kw] by blast
  then have shape: "out = concat (map (render ?kw) (pieces None tmpl))"
    by (rule py_format_pieces)
  from out assms(4) have "format_template tmpl prompt kwargs = Inr out"
    by (simp add: format_template_def)
  then have "fst (enhance_prompt srv now w prompt enhancement_type kwargs) = Inr out"
    by (simp add: enhance_template_pattern [OF assms(1,2)])
  moreover from sublist_render_member [OF reads(2), of ?kw] have "py_in prompt out"
    by (simp add: shape py_in_def)
  moreover have "py_in tok out" if "fixed_token tmpl tok" for tok
    using that sublist_render_Lits [of tok "pieces None tmpl" ?kw]
    by (simp add: shape py_in_def fixed_token_def)
  ultimately show ?thesis by blast
qed

theorem enhance_template_contains_prompt_witness:
  "\<exists>out. fst (enhance_prompt unreachable_server ''2024-06-01T12:00:00'' empty_world
       ''test prompt'' ''xml_structure'' [(''model'', ''llama3'')]) = Inr out
     \<and> py_in ''test prompt'' out \<and> py_in ''<instructions>'' out"
proof -
  have a: "template \<lparr>name = ''XML Structure Enhancement'',
     description = ''Uses XML tags for clear prompt organization (Anthropic's signature technique)'',
     template = Some xml_structure_template\<rparr> = Some xml_structure_template"
    by simp
  have b: "\<forall>f \<in> set (placeholders xml_structure_template).
      f \<noteq> ''original_prompt'' \<longrightarrow> f \<in> set (map fst [(''model'', ''llama3'')])"
    by (simp add: xml_structure_placeholders)
  have c: "''original_prompt'' \<notin> set (map fst [(''model'', ''llama3'')])"
    by simp
  from enhance_template_contains_prompt [OF xml_structure_entry a b c,
      of unreachable_server "''2024-06-01T12:00:00''" empty_world "''test prompt''"]
    xml_structure_instructions
  show ?thesis by blast
qed

text \<open>
  As stated, without the proviso on \<open>original_prompt\<close>, the claim fails: the template
  of \<open>xml_structure\<close> has no placeholder but \<open>original_prompt\<close>, so any extra
  parameters supply all of them, yet a call that passes \<open>original_prompt\<close> among them
  gives \<open>str.format\<close> that keyword twice and raises.
\<close>

theorem enhance_template_duplicate_keyword_counterexample:
  "placeholders xml_structure_template = [''original_prompt''] \<and>
   enhance_prompt unreachable_server ''2024-06-01T12:00:00'' empty_world ''test prompt''
     ''xml_structure'' [(''original_prompt'', ''another prompt'')] =
     (Inl (MultipleValues ''original_prompt''), empty_world)"
  using xml_structure_placeholders enhance_template_pattern [OF xml_structure_entry,
      of xml_structure_template unreachable_server "''2024-06-01T12:00:00''" empty_world
        "''test prompt''" "[(''original_prompt'', ''another prompt'')]"]
  by (simp add: format_template_def)

text \<open>
  Claim C6. For every pattern of the catalog that has a template, if the template has
  a placeholder other than \<open>original_prompt\<close> that the extra parameters do not supply,
  \<open>enhance_prompt\<close> raises instead of returning a string, and the world, with its
  history, is left as it was.
\<close>

theorem enhance_missing_parameter:
  assumes "(enhancement_type, pat) \<in> set ENHANCEMENT_PATTERNS"
    and "template pat = Some tmpl"
    and "f \<in> set (placeholders tmpl)"
    and "f \<noteq> ''original_prompt''"
    and "f \<notin> set (map fst kwargs)"
  shows "\<exists>e. enhance_prompt srv now w prompt enhancement_type kwargs = (Inl e, w)"
proof -
  let ?kw = "(map_of kwargs)(''original_prompt'' \<mapsto> prompt)"
  from assms(4,5) have none: "?kw f = None"
    by (simp add: map_of_eq_None_iff)
  have "\<exists>e. format_template tmpl prompt kwargs = Inl e"
  proof (cases "format_template tmpl prompt kwargs")
    case (Inl e)
    then show ?thesis by blast
  next
    case (Inr out)
    then have "py_format ?kw None tmpl = Inr out"
      by (simp add: format_template_def split: if_splits)
    with assms(3) have "\<exists>v. ?kw f = Some v"
      by (auto simp: placeholders_iff dest: py_format_fields_present)
    with none show ?thesis by simp
  qed
  then show ?thesis
    by (auto simp: enhance_template_pattern [OF assms(1,2)])
qed

theorem enhance_missing_parameter_witness:
  "''persona'' \<in> set (placeholders role_prompting_template) \<and>
   (\<exists>e. enhance_prompt unreachable_server ''2024-06-01T12:00:00'' empty_world ''test prompt''
      ''role_prompting'' [(''model'', ''llama3:latest'')] = (Inl e, empty_world))"
proof -
  have a: "template \<lparr>name = ''Role-Based Prompting'',
     description = ''Assigns specific expert roles for domain expertise'',
     template = Some role_prompting_template\<rparr> = Some role_prompting_template"
    by simp
  have b: "''persona'' \<noteq> ''original_prompt''" by simp
  have c: "''persona'' \<notin> set (map fst [(''model'', ''llama3:latest'')])" by simp
  from enhance_missing_parameter [OF role_prompting_entry a role_prompting_persona b c,
      of unreachable_server "''2024-06-01T12:00:00''" empty_world "''test prompt''"]
    role_prompting_persona
  show ?thesis by blast
qed

section \<open>The history\<close>

lemma call_ollama_history:
  "enhancement_history (snd (call_ollama srv w prompt model)) = enhancement_history w"
  by (simp add: call_ollama_def Let_def)

lemma rewrite_history:
  "enhancement_history (snd (rewrite_prompt_with_ai srv w prompt model)) = enhancement_history w"
proof -
  obtain crit w1 where 1: "call_ollama srv w (critique_prompt prompt) model = (crit, w1)"
    by (cases "call_ollama srv w (critique_prompt prompt) model")
  obtain rewritten w2 where 2: "call_ollama srv w1 (rewrite_prompt prompt crit) model = (rewritten, w2)"
    by (cases "call_ollama srv w1 (rewrite_prompt prompt crit) model")
  from call_ollama_history [of srv w "critique_prompt prompt" model] 1
  have "enhancement_history w1 = enhancement_history w" by simp
  moreover from call_ollama_history [of srv w1 "rewrite_prompt prompt crit" model] 2
  have "enhancement_history w2 = enhancement_history w1" by simp
  ultimately show ?thesis
    using 1 2 by (simp add: rewrite_prompt_with_ai_def)
qed

text \<open>
  Claim C5, as amended. Every call of \<open>enhance_prompt\<close> for a pattern that has a template
  and that returns a string appends exactly one record to the end of the history: the
  timestamp, the prompt, the returned string, the identifier and the extra parameters.
  Every call, whatever its identifier and its outcome, leaves the earlier history as a
  prefix of the new one: no entry is removed, changed or moved.
\<close>

theorem enhance_history:
  "((enhancement_type, pat) \<in> set ENHANCEMENT_PATTERNS \<and> template pat = Some tmpl \<and>
      fst (enhance_prompt srv now w prompt enhancement_type kwargs) = Inr out \<longrightarrow>
    enhancement_history (snd (enhance_prompt srv now w prompt enhancement_type kwargs)) =
      enhancement_history w @
        [\<lparr>timestamp = now, original = prompt, enhanced = out, type' = enhancement_type,
          parameters = kwargs\<rparr>])
   \<and> prefix (enhancement_history w)
       (enhancement_history (snd (enhance_prompt srv now w prompt enhancement_type kwargs)))"
proof (intro conjI impI)
  assume a: "(enhancement_type, pat) \<in> set ENHANCEMENT_PATTERNS \<and> template pat = Some tmpl \<and>
      fst (enhance_prompt srv now w prompt enhancement_type kwargs) = Inr out"
  then have "(enhancement_type, pat) \<in> set ENHANCEMENT_PATTERNS" "template pat = Some tmpl"
    by simp_all
  note run = enhance_template_pattern [OF this, of srv now w prompt kwargs]
  with a show "enhancement_history (snd (enhance_prompt srv now w prompt enhancement_type kwargs)) =
      enhancement_history w @
        [\<lparr>timestamp = now, original = prompt, enhanced = out, type' = enhancement_type,
          parameters = kwargs\<rparr>]"
    by (auto split: sum.splits)
next
  show "prefix (enhancement_history w)
       (enhancement_history (snd (enhance_prompt srv now w prompt enhancement_type kwargs)))"
  proof (cases "map_of ENHANCEMENT_PATTERNS enhancement_type")
    case None
    then show ?thesis by (simp add: enhance_prompt_def)
  next
    case (Some pat')
    show ?thesis
    proof (cases "enhancement_type = ''ai_rewrite''")
      case True
      with Some rewrite_history [of srv w prompt
          "case map_of kwargs ''model'' of None \<Rightarrow> ''llama3'' | Some m \<Rightarrow> m"]
      show ?thesis
        by (simp add: enhance_prompt_def split_beta)
    next
      case False
      with Some show ?thesis
        by (simp add: enhance_prompt_def split: option.splits sum.splits)
    qed
  qed
qed

theorem enhance_history_witness:
  "\<exists>out. fst (enhance_prompt unreachable_server ''2024-06-01T12:00:00'' empty_world
       ''test prompt'' ''xml_structure'' [(''model'', ''llama3'')]) = Inr out
     \<and> enhancement_history (snd (enhance_prompt unreachable_server ''2024-06-01T12:00:00''
         empty_world ''test prompt'' ''xml_structure'' [(''model'', ''llama3'')])) =
       [\<lparr>timestamp = ''2024-06-01T12:00:00'', original = ''test prompt'', enhanced = out,
         type' = ''xml_structure'', parameters = [(''model'', ''llama3'')]\<rparr>]"
proof -
  have a: "template \<lparr>name = ''XML Structure Enhancement'',
     description = ''Uses XML tags for clear prompt organization (Anthropic's signature technique)'',
     template = Some xml_structure_template\<rparr> = Some xml_structure_template"
    by simp
  have "\<not> isl (fst (enhance_prompt unreachable_server ''2024-06-01T12:00:00'' empty_world
       ''test prompt'' ''xml_structure'' [(''model'', ''llama3'')]))"
    by code_simp
  then obtain out where out: "fst (enhance_prompt unreachable_server ''2024-06-01T12:00:00''
       empty_world ''test prompt'' ''xml_structure'' [(''model'', ''llama3'')]) = Inr out"
    by (auto dest: isl_no_Inr)
  from enhance_history [of "''xml_structure''" _ xml_structure_template unreachable_server
      "''2024-06-01T12:00:00''" empty_world "''test prompt''" "[(''model'', ''llama3'')]" out]
    xml_structure_entry a out
  have "enhancement_history (snd (enhance_prompt unreachable_server ''2024-06-01T12:00:00''
         empty_world ''test prompt'' ''xml_structure'' [(''model'', ''llama3'')])) =
       enhancement_history empty_world @
       [\<lparr>timestamp = ''2024-06-01T12:00:00'', original = ''test prompt'', enhanced = out,
         type' = ''xml_structure'', parameters = [(''model'', ''llama3'')]\<rparr>]"
    by blast
  with out show ?thesis
    by (simp add: empty_world_def)
qed

text \<open>
  As stated, for every identifier of the catalog, the claim fails: a call with
  \<open>ai_rewrite\<close> returns the rewritten prompt and a call with \<open>role_prompting\<close> and
  no persona raises, and each leaves the history empty.
\<close>

theorem enhance_history_unchanged_counterexample:
  "''ai_rewrite'' \<in> set (map fst ENHANCEMENT_PATTERNS) \<and>
   fst (enhance_prompt
     (critic_server ''<critique>Too vague.</critique>''
        ''<rewritten_prompt>Explain the test.</rewritten_prompt>'')
     ''2024-06-01T12:00:00'' empty_world ''test prompt'' ''ai_rewrite''
     [(''model'', ''llama3'')]) = Inr ''Explain the test.'' \<and>
   enhancement_history (snd (enhance_prompt
     (critic_server ''<critique>Too vague.</critique>''
        ''<rewritten_prompt>Explain the test.</rewritten_prompt>'')
     ''2024-06-01T12:00:00'' empty_world ''test prompt'' ''ai_rewrite''
     [(''model'', ''llama3'')])) = [] \<and>
   ''role_prompting'' \<in> set (map fst ENHANCEMENT_PATTERNS) \<and>
   enhance_prompt unreachable_server ''2024-06-01T12:00:00'' empty_world ''test prompt''
     ''role_prompting'' [(''model'', ''llama3'')] = (Inl (KeyError ''persona''), empty_world)"
  by code_simp

section \<open>Replacing a token\<close>

lemma py_replace_leading:
  "old \<noteq> [] \<Longrightarrow> py_replace old [] (old @ s) = py_replace old [] s"
  by (cases old) simp_all

lemma prefix_before_foreign:
  assumes "old \<noteq> []" and "x \<notin> set (tl old)"
  shows "prefix old ((c # cs) @ x # t) \<longleftrightarrow> prefix old (c # cs)"
proof
  assume "prefix old ((c # cs) @ x # t)"
  then consider "prefix old (c # cs)"
    | us where "old = (c # cs) @ us" "prefix us (x # t)"
    by (auto simp only: prefix_append)
  then show "prefix old (c # cs)"
  proof cases
    case 1
    then show ?thesis .
  next
    case 2
    show ?thesis
    proof (cases us)
      case Nil
      with 2 show ?thesis by simp
    next
      case (Cons u us')
      with 2 have "x \<in> set (tl old)" by simp
      with assms(2) show ?thesis by simp
    qed
  qed
next
  assume "prefix old (c # cs)"
  then show "prefix old ((c # cs) @ x # t)"
    by (rule prefix_prefix)
qed

lemma drop_within: "n \<le> length a \<Longrightarrow> drop n (a @ b) = drop n a @ b"
  by simp

lemma py_replace_before_foreign:
  assumes "old \<noteq> []" and "x \<notin> set (tl old)"
  shows "py_replace old new (s @ x # t) = py_replace old new s @ py_replace old new (x # t)"
proof (induction s rule: length_induct)
  case (1 s)
  show ?case
  proof (cases s)
    case Nil
    with assms(1) show ?thesis by simp
  next
    case (Cons c cs)
    show ?thesis
    proof (cases "prefix old (c # cs)")
      case True
      then have len: "length old \<le> length (c # cs)"
        by (rule prefix_length_le)
      with assms(1) have "length (drop (length old) (c # cs)) < length s"
        by (cases old) (simp_all add: Cons)
      with 1 have "py_replace old new (drop (length old) (c # cs) @ x # t) =
          py_replace old new (drop (length old) (c # cs)) @ py_replace old new (x # t)"
        by blast
      moreover from len have "drop (length old) ((c # cs) @ x # t) =
          drop (length old) (c # cs) @ x # t"
        by (rule drop_within)
      moreover from True have "prefix old ((c # cs) @ x # t)"
        by (simp only: prefix_before_foreign [OF assms])
      ultimately show ?thesis
        using assms(1) True by (simp add: Cons)
    next
      case False
      then have "\<not> prefix old ((c # cs) @ x # t)"
        by (simp only: prefix_before_foreign [OF assms] not_False_eq_True)
      moreover from 1 have "py_replace old new (cs @ x # t) =
          py_replace old new cs @ py_replace old new (x # t)"
        by (simp add: Cons)
      ultimately show ?thesis
        using assms(1) False by (simp add: Cons)
    qed
  qed
qed

lemma py_replace_absent:
  "old \<noteq> [] \<Longrightarrow> \<not> sublist old s \<Longrightarrow> py_replace old new s = s"
proof (induction s)
  case Nil
  then show ?case by simp
next
  case (Cons c cs)
  then show ?case
    by (simp add: sublist_Cons_right)
qed

text \<open>The text left of a reply wrapped in an opening and a closing tag.\<close>

lemma unwrap_critique:
  "py_replace ''</critique>'' [] (py_replace ''<critique>'' [] (''<critique>'' @ c @ ''</critique>'')) =
   py_replace ''</critique>'' [] (py_replace ''<critique>'' [] c)"
proof -
  have "py_replace ''<critique>'' [] (''<critique>'' @ c @ ''</critique>'') =
      py_replace ''<critique>'' [] (c @ ''</critique>'')"
    by (rule py_replace_leading) simp
  also have "\<dots> = py_replace ''<critique>'' [] c @ py_replace ''<critique>'' [] ''</critique>''"
    by (rule py_replace_before_foreign) simp_all
  also have "py_replace ''<critique>'' [] ''</critique>'' = ''</critique>''"
    by simp
  finally have "py_replace ''</critique>'' [] (py_replace ''<critique>'' [] (''<critique>'' @ c @ ''</critique>'')) =
      py_replace ''</critique>'' [] (py_replace ''<critique>'' [] c @ ''</critique>'')"
    by simp
  also have "\<dots> = py_replace ''</critique>'' [] (py_replace ''<critique>'' [] c) @
      py_replace ''</critique>'' [] ''</critique>''"
    by (rule py_replace_before_foreign) simp_all
  also have "py_replace ''</critique>'' [] ''</critique>'' = []"
    by simp
  finally show ?thesis by simp
qed

lemma unwrap_rewritten_prompt:
  "py_replace ''</rewritten_prompt>'' []
     (py_replace ''<rewritten_prompt>'' [] (''<rewritten_prompt>'' @ r @ ''</rewritten_prompt>'')) =
   py_replace ''</rewritten_prompt>'' [] (py_replace ''<rewritten_prompt>'' [] r)"
proof -
  have "py_replace ''<rewritten_prompt>'' [] (''<rewritten_prompt>'' @ r @ ''</rewritten_prompt>'') =
      py_replace ''<rewritten_prompt>'' [] (r @ ''</rewritten_prompt>'')"
    by (rule py_replace_leading) simp
  also have "\<dots> = py_replace ''<rewritten_prompt>'' [] r @
      py_replace ''<rewritten_prompt>'' [] ''</rewritten_prompt>''"
    by (rule py_replace_before_foreign) simp_all
  also have "py_replace ''<rewritten_prompt>'' [] ''</rewritten_prompt>'' = ''</rewritten_prompt>''"
    by simp
  finally have "py_replace ''</rewritten_prompt>'' []
       (py_replace ''<rewritten_prompt>'' [] (''<rewritten_prompt>'' @ r @ ''</rewritten_prompt>'')) =
      py_replace ''</rewritten_prompt>'' []
       (py_replace ''<rewritten_prompt>'' [] r @ ''</rewritten_prompt>'')"
    by simp
  also have "\<dots> = py_replace ''</rewritten_prompt>'' [] (py_replace ''<rewritten_prompt>'' [] r) @
      py_replace ''</rewritten_prompt>'' [] ''</rewritten_prompt>''"
    by (rule py_replace_before_foreign) simp_all
  also have "py_replace ''</rewritten_prompt>'' [] ''</rewritten_prompt>'' = []"
    by simp
  finally show ?thesis by simp
qed

section \<open>The rewrite path\<close>

text \<open>
  Claim C9. When the two generate calls of the rewrite path return a critique wrapped
  in \<open><critique>\<close> and \<open></critique>\<close> and a rewrite wrapped in \<open><rewritten_prompt>\<close>
  and \<open></rewritten_prompt>\<close>, \<open>enhance_prompt\<close> with \<open>ai_rewrite\<close> returns the rewrite
  with those tokens removed and whitespace trimmed, and stores the critique, its
  tokens removed and trimmed, as \<open>st.session_state.critique\<close>, outside the returned
  value. For texts that do not hold the tokens themselves these are the trimmed
  rewrite and the trimmed critique.
\<close>

theorem enhance_ai_rewrite:
  assumes "call_ollama srv w (critique_prompt prompt) model =
       (''<critique>'' @ c @ ''</critique>'', w1)"
    and "call_ollama srv w1 (rewrite_prompt prompt (''<critique>'' @ c @ ''</critique>'')) model =
       (''<rewritten_prompt>'' @ r @ ''</rewritten_prompt>'', w2)"
    and "model = (case map_of kwargs ''model'' of None \<Rightarrow> ''llama3'' | Some m \<Rightarrow> m)"
  shows "enhance_prompt srv now w prompt ''ai_rewrite'' kwargs =
       (Inr (py_strip (py_replace ''</rewritten_prompt>'' [] (py_replace ''<rewritten_prompt>'' [] r))),
        w2\<lparr>critique :=
             Some (py_strip (py_replace ''</critique>'' [] (py_replace ''<critique>'' [] c)))\<rparr>)
    \<and> (\<not> sublist ''<rewritten_prompt>'' r \<and> \<not> sublist ''</rewritten_prompt>'' r \<longrightarrow>
         fst (enhance_prompt srv now w prompt ''ai_rewrite'' kwargs) = Inr (py_strip r))
    \<and> (\<not> sublist ''<critique>'' c \<and> \<not> sublist ''</critique>'' c \<longrightarrow>
         critique (snd (enhance_prompt srv now w prompt ''ai_rewrite'' kwargs)) =
         Some (py_strip c))"
proof -
  have entry: "map_of ENHANCEMENT_PATTERNS ''ai_rewrite'' \<noteq> None"
    by (simp add: ENHANCEMENT_PATTERNS_def)
  have run: "enhance_prompt srv now w prompt ''ai_rewrite'' kwargs =
       (Inr (py_strip (py_replace ''</rewritten_prompt>'' [] (py_replace ''<rewritten_prompt>'' [] r))),
        w2\<lparr>critique :=
             Some (py_strip (py_replace ''</critique>'' [] (py_replace ''<critique>'' [] c)))\<rparr>)"
    using entry assms(1,2) unwrap_critique [of c] unwrap_rewritten_prompt [of r]
    by (auto simp add: enhance_prompt_def rewrite_prompt_with_ai_def assms(3) [symmetric]
        simp del: py_replace.simps)
  moreover have "py_replace ''</rewritten_prompt>'' [] (py_replace ''<rewritten_prompt>'' [] r) = r"
    if "\<not> sublist ''<rewritten_prompt>'' r" "\<not> sublist ''</rewritten_prompt>'' r"
    using that by (simp add: py_replace_absent del: py_replace.simps)
  moreover have "py_replace ''</critique>'' [] (py_replace ''<critique>'' [] c) = c"
    if "\<not> sublist ''<critique>'' c" "\<not> sublist ''</critique>'' c"
    using that by (simp add: py_replace_absent del: py_replace.simps)
  ultimately show ?thesis by simp
qed

theorem enhance_ai_rewrite_witness:
  "enhance_prompt
     (critic_server ''  <critique> Too vague. </critique>\<newline>''
        ''<rewritten_prompt>\<newline>Explain the test.\<newline></rewritten_prompt>'')
     ''2024-06-01T12:00:00'' empty_world ''test prompt'' ''ai_rewrite''
     [(''model'', ''llama3'')] =
   (Inr ''Explain the test.'',
    (snd (call_ollama
       (critic_server ''  <critique> Too vague. </critique>\<newline>''
          ''<rewritten_prompt>\<newline>Explain the test.\<newline></rewritten_prompt>'')
       (snd (call_ollama
          (critic_server ''  <critique> Too vague. </critique>\<newline>''
             ''<rewritten_prompt>\<newline>Explain the test.\<newline></rewritten_prompt>'')
          empty_world (critique_prompt ''test prompt'') ''llama3''))
       (rewrite_prompt ''test prompt'' ''<critique> Too vague. </critique>'') ''llama3''))
    \<lparr>critique := Some ''Too vague.''\<rparr>)"
proof -
  let ?srv = "critic_server ''  <critique> Too vague. </critique>\<newline>''
        ''<rewritten_prompt>\<newline>Explain the test.\<newline></rewritten_prompt>''"
  let ?w1 = "snd (call_ollama ?srv empty_world (critique_prompt ''test prompt'') ''llama3'')"
  let ?w2 = "snd (call_ollama ?srv ?w1
       (rewrite_prompt ''test prompt'' ''<critique> Too vague. </critique>'') ''llama3'')"
  have s1: "py_strip ''  <critique> Too vague. </critique>\<newline>'' = ''<critique> Too vague. </critique>''"
    by (simp add: py_strip_def isspace_def)
  have s2: "py_strip ''<rewritten_prompt>\<newline>Explain the test.\<newline></rewritten_prompt>'' =
      ''<rewritten_prompt>\<newline>Explain the test.\<newline></rewritten_prompt>''"
    by (simp add: py_strip_def isspace_def)
  have a: "call_ollama ?srv empty_world (critique_prompt ''test prompt'') ''llama3'' =
      (''<critique>'' @ '' Too vague. '' @ ''</critique>'', ?w1)"
    by (simp add: prod_eq_iff call_ollama_def call_ollama_try_def critic_server_def
        empty_world_def Let_def s1)
  have b: "call_ollama ?srv ?w1
      (rewrite_prompt ''test prompt'' (''<critique>'' @ '' Too vague. '' @ ''</critique>'')) ''llama3'' =
      (''<rewritten_prompt>'' @ ''\<newline>Explain the test.\<newline>'' @ ''</rewritten_prompt>'', ?w2)"
    by (simp add: prod_eq_iff call_ollama_def call_ollama_try_def critic_server_def
        empty_world_def Let_def s2)
  have c: "''llama3'' = (case map_of [(''model'', ''llama3'')] ''model'' of
      None \<Rightarrow> ''llama3'' | Some m \<Rightarrow> m)"
    by simp
  have r: "py_strip (py_replace ''</rewritten_prompt>'' []
      (py_replace ''<rewritten_prompt>'' [] ''\<newline>Explain the test.\<newline>'')) = ''Explain the test.''"
    by code_simp
  have k: "py_strip (py_replace ''</critique>'' [] (py_replace ''<critique>'' [] '' Too vague. '')) =
      ''Too vague.''"
    by code_simp
  from enhance_ai_rewrite [OF a b c, of "''2024-06-01T12:00:00''"]
  have "enhance_prompt ?srv ''2024-06-01T12:00:00'' empty_world ''test prompt'' ''ai_rewrite''
      [(''model'', ''llama3'')] =
    (Inr (py_strip (py_replace ''</rewritten_prompt>'' []
        (py_replace ''<rewritten_prompt>'' [] ''\<newline>Explain the test.\<newline>''))),
     ?w2\<lparr>critique := Some (py_strip (py_replace ''</critique>'' []
        (py_replace ''<critique>'' [] '' Too vague. '')))\<rparr>)"
    by (rule conjunct1)
  then show ?thesis
    by (simp only: r k append.simps)
qed

end
